theory Spec2Isabelle
  imports Complex_Main "HOL-Library.AList"
begin

section \<open>JavaScript values\<close>

text \<open>
  The values the routing sample passes around: markers, places, route responses, viewports
  and option objects. An object is its list of own enumerable properties (the program
  copies them, counts them and looks them up by name). Numbers are the finite doubles, read as reals; the program does no arithmetic on
  them apart from one comparison of the viewport width. A string is a list of characters,
  each standing for one code unit below 256.
\<close>

datatype jsval =
    JUndefined
  | JNull
  | JBool bool
  | JNum real
  | JStr string
  | JArr "jsval list"
  | JObj "(string \<times> jsval) list"

text \<open>
  An element of the \<open>markers\<close> array. Writing past the end of a JavaScript array leaves
  empty slots behind; an empty slot reads as \<open>undefined\<close>, is counted by \<open>length\<close>, and is
  skipped by \<open>every\<close> and \<open>map\<close>.
\<close>

datatype slot = Hole | Elem jsval

text \<open>What the program can throw or catch: a TypeError or a RangeError raised while it
  runs, or the reason of a rejected promise.\<close>

datatype js_error = TypeError | RangeError | Rejection jsval

text \<open>How the promise of a remote call settles.\<close>

datatype 'a settled = Resolved 'a | Rejected jsval

fun digit :: "nat \<Rightarrow> char" where
  "digit n = char_of (48 + n)"

function dec :: "nat \<Rightarrow> string" where
  "dec n = (if n < 10 then [digit n] else dec (n div 10) @ [digit (n mod 10)])"
  by pat_completeness auto
termination
  by (relation "measure id") auto

declare dec.simps [simp del]

text \<open>\<open>typeof v\<close>.\<close>

fun typeof :: "jsval \<Rightarrow> string" where
  "typeof JUndefined = ''undefined''"
| "typeof JNull = ''object''"
| "typeof (JBool b) = ''boolean''"
| "typeof (JNum x) = ''number''"
| "typeof (JStr s) = ''string''"
| "typeof (JArr xs) = ''object''"
| "typeof (JObj kvs) = ''object''"

text \<open>\<open>Object.keys(v)\<close>: it throws on \<open>undefined\<close> and \<open>null\<close>.\<close>

fun object_keys :: "jsval \<Rightarrow> js_error + string list" where
  "object_keys JUndefined = Inl TypeError"
| "object_keys JNull = Inl TypeError"
| "object_keys (JBool b) = Inr []"
| "object_keys (JNum x) = Inr []"
| "object_keys (JStr s) = Inr (map dec [0..<length s])"
| "object_keys (JArr xs) = Inr (map dec [0..<length xs])"
| "object_keys (JObj kvs) = Inr (map fst kvs)"

text \<open>The properties an object spread \<open>{...v}\<close> copies: none for \<open>undefined\<close>, \<open>null\<close>,
  booleans and numbers, the indexed elements of a string or an array.\<close>

fun spread :: "jsval \<Rightarrow> (string \<times> jsval) list" where
  "spread (JObj kvs) = kvs"
| "spread (JArr xs) = zip (map dec [0..<length xs]) xs"
| "spread (JStr s) = zip (map dec [0..<length s]) (map (\<lambda>c. JStr [c]) s)"
| "spread v = []"

text \<open>
  A property read \<open>v.k\<close>, for the property names the program reads (\<open>geometry\<close>,
  \<open>point\<close>, \<open>Summary\<close>, \<open>RouteBBox\<close>, \<open>width\<close>): none of them is an index, \<open>length\<close> or
  a name an object inherits, so on anything but a plain object the read gives \<open>undefined\<close>,
  and on \<open>undefined\<close> and \<open>null\<close> it throws.
\<close>

fun get_prop :: "jsval \<Rightarrow> string \<Rightarrow> js_error + jsval" where
  "get_prop JUndefined k = Inl TypeError"
| "get_prop JNull k = Inl TypeError"
| "get_prop (JObj kvs) k = Inr (case map_of kvs k of None \<Rightarrow> JUndefined | Some v \<Rightarrow> v)"
| "get_prop v k = Inr JUndefined"

text \<open>An indexed read \<open>v[i]\<close>.\<close>

fun get_index :: "jsval \<Rightarrow> nat \<Rightarrow> js_error + jsval" where
  "get_index JUndefined i = Inl TypeError"
| "get_index JNull i = Inl TypeError"
| "get_index (JArr xs) i = Inr (if i < length xs then xs ! i else JUndefined)"
| "get_index (JStr s) i = Inr (if i < length s then JStr [s ! i] else JUndefined)"
| "get_index (JObj kvs) i = Inr (case map_of kvs (dec i) of None \<Rightarrow> JUndefined | Some v \<Rightarrow> v)"
| "get_index v i = Inr JUndefined"

section \<open>Inputs.js: formatting an address\<close>

text \<open>
  \<open>formatAddress\<close> destructures its argument into six fields at once; the record is that
  destructured argument. A field of a place is a string when it is there; \<open>None\<close> is
  \<open>undefined\<close>.
\<close>

record address =
  label :: "string option"
  street :: "string option"
  addressNumber :: "string option"
  postalCode :: "string option"
  municipality :: "string option"
  country :: "string option"

text \<open>\<open>Array.prototype.join\<close> on strings.\<close>

fun join :: "string \<Rightarrow> string list \<Rightarrow> string" where
  "join sep [] = []"
| "join sep [x] = x"
| "join sep (x # y # ys) = x @ sep @ join sep (y # ys)"

text \<open>\<open>if (f !== undefined) address.push(f)\<close>.\<close>

definition push_defined :: "string option \<Rightarrow> string list \<Rightarrow> string list" where
  "push_defined f address = (case f of None \<Rightarrow> address | Some s \<Rightarrow> address @ [s])"

text \<open>\<open>if (label)\<close>: a string is truthy when it is not empty.\<close>

definition truthy_field :: "string option \<Rightarrow> bool" where
  "truthy_field f = (case f of None \<Rightarrow> False | Some s \<Rightarrow> s \<noteq> [])"

definition formatAddress :: "address \<Rightarrow> string" where
  "formatAddress a =
     (if truthy_field (label a) then the (label a)
      else
        let address0 = [];
            address1 = push_defined (street a) address0;
            address2 = push_defined (addressNumber a) address1;
            address3 = push_defined (postalCode a) address2;
            address4 = push_defined (municipality a) address3
        in join '', '' address4)"

text \<open>The fields the claim lists, in its order, keeping the defined ones.\<close>

definition defined_fields :: "address \<Rightarrow> string list" where
  "defined_fields a =
     List.map_filter id [street a, addressNumber a, postalCode a, municipality a]"

section \<open>App: the state of the routing sample\<close>

text \<open>
  The state variables and refs of the \<open>App\<close> component. \<open>route\<close> is either the object
  \<open>defaultState.route\<close> or the response of a route calculation: the program tells the
  two apart by identity (\<open>route !== defaultState.route\<close>), and a response is never the
  default object.
\<close>

datatype route_state = DefaultRoute | RouteResult "(string \<times> jsval) list"

text \<open>
  The option objects (\<open>carOptions\<close>, \<open>truckOptions\<close>) are the one place where the program
  writes into an object that something else refers to: \<open>changeUnits\<close> copies
  \<open>truckOptions\<close> one level deep and then assigns to \<open>Weight.Unit\<close> and
  \<open>Dimensions.Unit\<close> of the copy, that is, into the nested objects the copy shares with
  the original. So an option object is kept as the program has it: its own properties by
  value (it is always copied before a property of its own is written), and a nested object
  by reference, as the address of a cell. A property of an option object is a primitive
  value or such a nested object; a nested object holds values.
\<close>

datatype prim = PUndefined | PNull | PBool bool | PNum real | PStr string

datatype option_value = Scalar prim | Group nat

type_synonym options = "(string \<times> option_value) list"

text \<open>A \<open>Date\<close>: its time value, or an invalid date.\<close>

datatype js_date = ValidDate real | InvalidDate

text \<open>
  \<open>objects\<close> holds the nested objects of the option objects, by address, and
  \<open>next_object\<close> is the first address not yet in use; the option objects of the state and
  of \<open>defaultState\<close> refer to cells below it.
\<close>

record app_state =
  viewport :: jsval
  markers :: "slot list"
  isRouting :: bool
  route :: route_state
  routingMode :: jsval
  truckOptions :: options
  carOptions :: options
  departureTime :: js_date
  distanceUnit :: jsval
  units :: jsval
  isRouteZoomedRef :: bool
  isPointZoomed :: bool
  objects :: "nat \<Rightarrow> (string \<times> jsval) list"
  next_object :: nat

text \<open>
  \<open>defaultState\<close> is exported by \<open>AppContext.js\<close>, which is not among the sources: the
  values it holds are a parameter of every function that reads them. Its \<open>route\<close> field
  is \<open>DefaultRoute\<close>. No code of the sample assigns to a property of \<open>defaultState\<close> or of
  its option objects themselves; the nested objects its \<open>truckOptions\<close> refers to are
  cells of \<open>objects\<close>, and those can change.
\<close>

record defaultState =
  d_markers :: "slot list"
  d_isRouting :: bool
  d_routingMode :: jsval
  d_truckOptions :: options
  d_carOptions :: options
  d_departureTime :: js_date
  d_distanceUnit :: jsval
  d_units :: jsval

text \<open>
  What the model takes from outside the sources.
  From react-map-gl: \<open>fitBounds\<close> of a \<open>WebMercatorViewport\<close> built from a viewport, given
  the four coordinates of the box and the right padding, returns longitude, latitude and
  zoom; \<open>flyToInterpolator\<close> is the object \<open>new FlyToInterpolator({speed: 0.8})\<close>.
  From the language: \<open>number_gt v r\<close> says whether \<open>v > r\<close> for a string, an array or an
  object \<open>v\<close>, which is converted to a number first.
  From \<open>AppContext.js\<close>: \<open>routingMode_CAR\<close> and \<open>routingMode_TRUCK\<close> are
  \<open>RoutingModesEnum.CAR\<close> and \<open>RoutingModesEnum.TRUCK\<close>, and \<open>unitsEnum_upper s\<close> is
  \<open>UnitsEnum[s.toUpperCase()]\<close>.
\<close>

record environment =
  fitBounds :: "jsval \<Rightarrow> jsval list \<Rightarrow> real \<Rightarrow> jsval \<times> jsval \<times> jsval"
  flyToInterpolator :: jsval
  number_gt :: "jsval \<Rightarrow> real \<Rightarrow> bool"
  routingMode_CAR :: string
  routingMode_TRUCK :: string
  unitsEnum_upper :: "string \<Rightarrow> jsval"

text \<open>
  What a handler does besides writing the state: the error it logs in a \<open>catch\<close> block,
  the remote call it starts, the callback it calls, the zoom function it enters, the
  exception it lets escape. The \<open>console.debug\<close> lines are left out.
\<close>

datatype action =
    ConsoleLog js_error
  | ConsoleError js_error
  | SearchByText string jsval nat
  | SearchByCoordinates jsval
  | CalculateRoute jsval "slot list" options options js_date jsval
  | SetHasSuggestions bool
  | FitRoute jsval jsval
  | FitPoint jsval jsval
  | Uncaught js_error

text \<open>What the Hub hands to a listener: the payload and the source of the dispatch.\<close>

record 'e capsule =
  payload :: 'e
  source :: string

text \<open>The \<open>data\<close> of a \<open>setMarker\<close> event. A \<open>force\<close> or \<open>geocode\<close> that is left
  \<open>undefined\<close> is falsy, here \<open>False\<close>.\<close>

record setMarker_data =
  idx :: nat
  lngLat :: jsval
  marker :: jsval
  geocode :: bool
  force :: bool

datatype markers_event =
    CloseToast
  | CleanUp
  | SwapMarkers
  | SetMarker "setMarker_data option"
  | OtherMarkersEvent

text \<open>
  The value an event brings for an option: a primitive, or an object of its own, which the
  handler stores by reference.
\<close>

datatype event_value = NewScalar prim | NewObject "(string \<times> jsval) list"

text \<open>The \<open>data\<close> of \<open>changeAvoidances\<close>.\<close>

record avoidance =
  av_key :: string
  av_value :: event_value

text \<open>
  The Routing events with their \<open>data\<close>. A routing mode and a system of units are named
  by a string. \<open>changeAvoidances\<close> may come without data. \<open>changeDepartureTime\<close> brings a
  \<open>Date\<close>; the flag says whether it is the very object the state holds, which is what
  \<open>data !== departureTime\<close> asks.
\<close>

datatype routing_event =
    StartRouting
  | EndRouting
  | ChangeRoutingMode string
  | ChangeAvoidances "avoidance option"
  | ChangeTruckOptions event_value
  | ChangeDepartureTime js_date bool
  | ChangeDistanceUnit jsval
  | ChangeUnits string
  | OtherRoutingEvent

datatype viewport_event = Update jsval | OtherViewportEvent

record click_event =
  click_lngLat :: jsval

subsection \<open>Arrays with empty slots\<close>

fun slot_value :: "slot \<Rightarrow> jsval" where
  "slot_value Hole = JUndefined"
| "slot_value (Elem v) = v"

text \<open>\<open>xs[i]\<close>: \<open>undefined\<close> out of range and on an empty slot.\<close>

definition array_read :: "slot list \<Rightarrow> nat \<Rightarrow> jsval" where
  "array_read xs i = (if i < length xs then slot_value (xs ! i) else JUndefined)"

text \<open>\<open>xs[i] = v\<close>: past the end the array grows, leaving empty slots before \<open>i\<close>.\<close>

definition array_write :: "slot list \<Rightarrow> nat \<Rightarrow> jsval \<Rightarrow> slot list" where
  "array_write xs i v =
     (if i < length xs then xs[i := Elem v]
      else xs @ replicate (i - length xs) Hole @ [Elem v])"

text \<open>\<open>[...xs]\<close>: the copy has \<open>undefined\<close> where \<open>xs\<close> has an empty slot.\<close>

definition array_spread :: "slot list \<Rightarrow> slot list" where
  "array_spread xs = map (\<lambda>s. Elem (slot_value s)) xs"

subsection \<open>resetView, handleRouting, handleViewport\<close>

definition resetView :: "defaultState \<Rightarrow> app_state \<Rightarrow> app_state" where
  "resetView d st =
     st\<lparr>isRouting := d_isRouting d,
        markers := d_markers d,
        route := DefaultRoute,
        routingMode := d_routingMode d,
        truckOptions := d_truckOptions d,
        carOptions := d_carOptions d,
        departureTime := d_departureTime d,
        isRouteZoomedRef := False,
        isPointZoomed := False\<rparr>"

text \<open>The option an event value becomes: an object it brings gets a cell of its own.\<close>

definition store_value :: "event_value \<Rightarrow> app_state \<Rightarrow> option_value \<times> app_state" where
  "store_value v st =
     (case v of
        NewScalar p \<Rightarrow> (Scalar p, st)
      | NewObject fs \<Rightarrow>
          (Group (next_object st),
           st\<lparr>objects := (objects st)(next_object st := fs),
              next_object := Suc (next_object st)\<rparr>))"

text \<open>
  \<open>newState.k.Unit = v\<close> for the copy \<open>newState\<close> of an option object, as a change of the
  cells: the nested object under \<open>k\<close> is written in place. Without a nested object there
  the assignment throws: \<open>undefined\<close> and \<open>null\<close> have no properties, and the code of a
  module is strict, where assigning to a property of a primitive throws too.
\<close>

definition assign_unit ::
  "options \<Rightarrow> string \<Rightarrow> jsval \<Rightarrow> (nat \<Rightarrow> (string \<times> jsval) list)
     \<Rightarrow> js_error + (nat \<Rightarrow> (string \<times> jsval) list)" where
  "assign_unit newState k v h =
     (case map_of newState k of
        None \<Rightarrow> Inl TypeError
      | Some (Scalar p) \<Rightarrow> Inl TypeError
      | Some (Group a) \<Rightarrow> Inr (h(a := AList.update ''Unit'' v (h a))))"

text \<open>
  The body of the \<open>changeUnits\<close> branch, lines 221 to 238. The first read of the entry of
  \<open>UnitsEnum\<close> is in the \<open>console.debug\<close> of line 221. What is written before an
  exception stays written.
\<close>

definition changeUnits :: "environment \<Rightarrow> string \<Rightarrow> app_state \<Rightarrow> app_state \<times> action list" where
  "changeUnits env dat st =
     (case get_prop (unitsEnum_upper env dat) ''distance'' of
        Inl e \<Rightarrow> (st, [Uncaught e])
      | Inr du \<Rightarrow>
          (case get_prop (unitsEnum_upper env dat) ''weight'' of
             Inl e \<Rightarrow> (st\<lparr>distanceUnit := du\<rparr>, [Uncaught e])
           | Inr w \<Rightarrow>
               (case assign_unit (truckOptions st) ''Weight'' w (objects st) of
                  Inl e \<Rightarrow> (st\<lparr>distanceUnit := du\<rparr>, [Uncaught e])
                | Inr h1 \<Rightarrow>
                    (case get_prop (unitsEnum_upper env dat) ''dimensions'' of
                       Inl e \<Rightarrow> (st\<lparr>distanceUnit := du, objects := h1\<rparr>, [Uncaught e])
                     | Inr dm \<Rightarrow>
                         (case assign_unit (truckOptions st) ''Dimensions'' dm h1 of
                            Inl e \<Rightarrow> (st\<lparr>distanceUnit := du, objects := h1\<rparr>, [Uncaught e])
                          | Inr h2 \<Rightarrow>
                              (st\<lparr>distanceUnit := du, objects := h2,
                                  truckOptions := truckOptions st, units := JStr dat\<rparr>,
                               []))))))"

text \<open>
  \<open>handleRouting\<close>, lines 173 to 241. A falsy message is \<open>None\<close>. The function is
  asynchronous and waits for nothing: an exception in it is an unhandled rejection.
\<close>

definition handleRouting ::
  "defaultState \<Rightarrow> environment \<Rightarrow> routing_event capsule option \<Rightarrow> app_state
     \<Rightarrow> app_state \<times> action list" where
  "handleRouting d env message st =
     (case message of
        None \<Rightarrow> (st, [])
      | Some m \<Rightarrow>
          (case payload m of
             StartRouting \<Rightarrow> (st\<lparr>isRouting := True\<rparr>, [])
           | EndRouting \<Rightarrow> (resetView d st, [])
           | ChangeRoutingMode dat \<Rightarrow>
               if JStr dat \<noteq> routingMode st
               then (st\<lparr>routingMode := JStr dat,
                        truckOptions := d_truckOptions d,
                        carOptions := d_carOptions d\<rparr>, [])
               else (st, [])
           | ChangeAvoidances dat \<Rightarrow>
               (case dat of
                  None \<Rightarrow> (st, [Uncaught TypeError])
                | Some a \<Rightarrow>
                    if source m = routingMode_CAR env
                    then
                      (case store_value (av_value a) st of
                         (v, st1) \<Rightarrow>
                           (st1\<lparr>carOptions := AList.update (av_key a) v (carOptions st)\<rparr>, []))
                    else if source m = routingMode_TRUCK env
                    then
                      (case store_value (av_value a) st of
                         (v, st1) \<Rightarrow>
                           (st1\<lparr>truckOptions := AList.update (av_key a) v (truckOptions st)\<rparr>,
                            []))
                    else (st, []))
           | ChangeTruckOptions dat \<Rightarrow>
               (case store_value dat st of
                  (v, st1) \<Rightarrow>
                    (st1\<lparr>truckOptions := AList.update (source m) v (truckOptions st)\<rparr>, []))
           | ChangeDepartureTime dat same \<Rightarrow>
               if \<not> same
               then
                 (case dat of
                    ValidDate t \<Rightarrow> (st\<lparr>departureTime := dat\<rparr>, [])
                  | InvalidDate \<Rightarrow> (st, [Uncaught RangeError]))
               else (st, [])
           | ChangeDistanceUnit dat \<Rightarrow> (st\<lparr>distanceUnit := dat\<rparr>, [])
           | ChangeUnits dat \<Rightarrow>
               if JStr dat \<noteq> units st then changeUnits env dat st else (st, [])
           | OtherRoutingEvent \<Rightarrow> (st, [])))"

definition handleViewport :: "viewport_event capsule \<Rightarrow> app_state \<Rightarrow> app_state" where
  "handleViewport c st =
     (case payload c of
        Update v \<Rightarrow> st\<lparr>viewport := v\<rparr>
      | OtherViewportEvent \<Rightarrow> st)"

subsection \<open>handleMarkers\<close>

text \<open>Lines 252 to 261: the array \<open>swapMarkers\<close> builds.\<close>

definition swapMarkers :: "slot list \<Rightarrow> slot list" where
  "swapMarkers ms =
     (if length ms = 1 then [Elem (array_read ms 0), Elem (JObj [])]
      else if length ms = 2 then [Elem (array_read ms 1), Elem (array_read ms 0)]
      else [])"

text \<open>The object literal \<open>{...marker, source: data.source}\<close>.\<close>

definition with_source :: "jsval \<Rightarrow> string \<Rightarrow> jsval" where
  "with_source m src = JObj (AList.update ''source'' (JStr src) (spread m))"

text \<open>
  Lines 276 to 290, the part of the \<open>setMarker\<close> branch after \<open>marker\<close> is known. \<open>ms\<close> is
  the \<open>markers\<close> array of the render the handler belongs to: the handler reads it from
  its closure, also after waiting for the reverse geocoder, while the ref
  \<open>isPointZoomed\<close> is the current one.
\<close>

definition place_marker ::
  "slot list \<Rightarrow> string \<Rightarrow> setMarker_data \<Rightarrow> jsval \<Rightarrow> app_state \<Rightarrow> app_state" where
  "place_marker ms src dat m st =
     (let newMarkers = array_spread ms in
      if array_read newMarkers (idx dat) \<noteq> JUndefined \<and> \<not> force dat
      then st\<lparr>markers := Elem (with_source m src) # newMarkers\<rparr>
      else st\<lparr>markers := array_write newMarkers (idx dat) (with_source m src),
              isPointZoomed := (if idx dat = 0 then False else isPointZoomed st)\<rparr>)"

text \<open>
  \<open>handleMarkers\<close> up to its first \<open>await\<close>: all of it, unless the event is \<open>setMarker\<close>
  with \<open>geocode\<close>, where it starts the reverse geocoder and waits. A \<open>setMarker\<close> event
  without \<open>data\<close> fails to destructure.
\<close>

definition handleMarkers ::
  "defaultState \<Rightarrow> markers_event capsule \<Rightarrow> app_state \<Rightarrow> app_state \<times> action list" where
  "handleMarkers d c st =
     (case payload c of
        CloseToast \<Rightarrow> (resetView d st, [])
      | CleanUp \<Rightarrow> (resetView d st, [])
      | SwapMarkers \<Rightarrow> (st\<lparr>markers := swapMarkers (markers st)\<rparr>, [])
      | SetMarker None \<Rightarrow> (st, [Uncaught TypeError])
      | SetMarker (Some dat) \<Rightarrow>
          if geocode dat then (st, [SearchByCoordinates (lngLat dat)])
          else (place_marker (markers st) (source c) dat (marker dat) st, [])
      | OtherMarkersEvent \<Rightarrow> (st, []))"

text \<open>
  \<open>handleMarkers\<close> after the \<open>await\<close> of line 269: the reverse geocoder has settled. When
  it rejects, the error is logged and \<open>marker\<close> stays \<open>undefined\<close>. \<open>ms\<close> is the
  \<open>markers\<close> array the handler started with, \<open>st\<close> the state it resumes in.
\<close>

definition handleMarkers_settled ::
  "slot list \<Rightarrow> string \<Rightarrow> setMarker_data \<Rightarrow> jsval settled \<Rightarrow> app_state
     \<Rightarrow> app_state \<times> action list" where
  "handleMarkers_settled ms src dat r st =
     (case r of
        Resolved m \<Rightarrow> (place_marker ms src dat m st, [])
      | Rejected err \<Rightarrow> (place_marker ms src dat JUndefined st, [ConsoleLog (Rejection err)]))"

subsection \<open>handleMapClick\<close>

text \<open>The event \<open>handleMapClick\<close> dispatches on the Markers channel. A dispatch that
  names no source has the empty string as its source.\<close>

definition handleMapClick :: "app_state \<Rightarrow> click_event \<Rightarrow> markers_event capsule" where
  "handleMapClick st e =
     (if length (markers st) > 0 \<and> \<not> isRouting st
      then \<lparr>payload = CleanUp, source = ''''\<rparr>
      else
        let dat =
          (if length (markers st) = 0 \<or> length (markers st) = 2
           then Some \<lparr>idx = 0, lngLat = click_lngLat e, marker = JUndefined,
                   geocode = True, force = True\<rparr>
           else if length (markers st) = 1
           then Some \<lparr>idx = 0, lngLat = click_lngLat e, marker = JUndefined,
                   geocode = True, force = False\<rparr>
           else None)
        in \<lparr>payload = SetMarker dat, source = ''map''\<rparr>)"

subsection \<open>The effects of App\<close>

text \<open>
  \<open>v > r\<close> for a number \<open>r\<close>: \<open>undefined\<close> converts to NaN, which is greater than
  nothing, \<open>null\<close> to 0, a boolean to 0 or 1; the conversion of a string, an array or an
  object is the language's, taken from the environment.
\<close>

fun js_gt :: "environment \<Rightarrow> jsval \<Rightarrow> real \<Rightarrow> bool" where
  "js_gt env JUndefined r = False"
| "js_gt env JNull r = (0 > r)"
| "js_gt env (JBool b) r = ((if b then 1 else 0) > r)"
| "js_gt env (JNum x) r = (x > r)"
| "js_gt env (JStr s) r = number_gt env (JStr s) r"
| "js_gt env (JArr xs) r = number_gt env (JArr xs) r"
| "js_gt env (JObj kvs) r = number_gt env (JObj kvs) r"

definition bbox_coords :: "jsval \<Rightarrow> js_error + jsval list" where
  "bbox_coords routeBBox =
     (case get_index routeBBox 0 of Inl e \<Rightarrow> Inl e | Inr b0 \<Rightarrow>
      case get_index routeBBox 1 of Inl e \<Rightarrow> Inl e | Inr b1 \<Rightarrow>
      case get_index routeBBox 2 of Inl e \<Rightarrow> Inl e | Inr b2 \<Rightarrow>
      case get_index routeBBox 3 of Inl e \<Rightarrow> Inl e | Inr b3 \<Rightarrow>
      Inr [b0, b1, b2, b3])"

text \<open>The viewport object both zoom functions hand to \<open>setViewport\<close>.\<close>

definition fly_viewport :: "environment \<Rightarrow> jsval \<Rightarrow> jsval \<Rightarrow> jsval \<Rightarrow> jsval \<Rightarrow> jsval" where
  "fly_viewport lib vp lo la z =
     JObj (AList.update ''transitionDuration'' (JStr ''auto'')
          (AList.update ''transitionInterpolator'' (flyToInterpolator lib)
          (AList.update ''zoom'' z
          (AList.update ''latitude'' la
          (AList.update ''longitude'' lo (spread vp))))))"

text \<open>\<open>FitRoute\<close> records that \<open>zoomToRoute\<close> was entered.\<close>

definition zoomToRoute ::
  "environment \<Rightarrow> jsval \<Rightarrow> jsval \<Rightarrow> app_state \<Rightarrow> app_state \<times> action list" where
  "zoomToRoute lib routeBBox vp st =
     (case bbox_coords routeBBox of
        Inl e \<Rightarrow> (st, [FitRoute routeBBox vp, Uncaught e])
      | Inr bounds \<Rightarrow>
          (case get_prop vp ''width'' of
             Inl e \<Rightarrow> (st, [FitRoute routeBBox vp, Uncaught e])
           | Inr w \<Rightarrow>
               (case fitBounds lib vp bounds (if js_gt lib w 768 then 450 else 50) of
                  (lo, la, z) \<Rightarrow>
                    (st\<lparr>viewport := fly_viewport lib vp lo la z\<rparr>, [FitRoute routeBBox vp]))))"

text \<open>\<open>const [longitude, latitude] = lngLat\<close>: only arrays and strings can be iterated.\<close>

fun destructure_pair :: "jsval \<Rightarrow> js_error + jsval \<times> jsval" where
  "destructure_pair (JArr xs) =
     Inr (if 0 < length xs then xs ! 0 else JUndefined,
          if 1 < length xs then xs ! 1 else JUndefined)"
| "destructure_pair (JStr s) =
     Inr (if 0 < length s then JStr [s ! 0] else JUndefined,
          if 1 < length s then JStr [s ! 1] else JUndefined)"
| "destructure_pair v = Inl TypeError"

definition zoomToPoint ::
  "environment \<Rightarrow> jsval \<Rightarrow> jsval \<Rightarrow> app_state \<Rightarrow> app_state \<times> action list" where
  "zoomToPoint lib p vp st =
     (case destructure_pair p of
        Inl e \<Rightarrow> (st, [FitPoint p vp, Uncaught e])
      | Inr (lo, la) \<Rightarrow>
          (st\<lparr>viewport := fly_viewport lib vp lo la (JNum 15)\<rparr>, [FitPoint p vp]))"

text \<open>Lines 111 to 116. \<open>dv\<close> is the debounced viewport.\<close>

definition routeZoomEffect ::
  "environment \<Rightarrow> jsval \<Rightarrow> app_state \<Rightarrow> app_state \<times> action list" where
  "routeZoomEffect lib dv st =
     (case route st of
        DefaultRoute \<Rightarrow> (st, [])
      | RouteResult r \<Rightarrow>
          if isRouteZoomedRef st then (st, [])
          else
            (case get_prop (JObj r) ''Summary'' of
               Inl e \<Rightarrow> (st\<lparr>isRouteZoomedRef := True\<rparr>, [Uncaught e])
             | Inr summary \<Rightarrow>
                 (case get_prop summary ''RouteBBox'' of
                    Inl e \<Rightarrow> (st\<lparr>isRouteZoomedRef := True\<rparr>, [Uncaught e])
                  | Inr routeBBox \<Rightarrow>
                      zoomToRoute lib routeBBox dv (st\<lparr>isRouteZoomedRef := True\<rparr>))))"

text \<open>\<open>marker.geometry.point\<close>.\<close>

definition marker_point :: "jsval \<Rightarrow> js_error + jsval" where
  "marker_point m =
     (case get_prop m ''geometry'' of
        Inl e \<Rightarrow> Inl e
      | Inr g \<Rightarrow> get_prop g ''point'')"

text \<open>Lines 118 to 123.\<close>

definition pointZoomEffect ::
  "environment \<Rightarrow> jsval \<Rightarrow> app_state \<Rightarrow> app_state \<times> action list" where
  "pointZoomEffect lib dv st =
     (if length (markers st) = 1 \<and> \<not> isPointZoomed st
      then
        (case marker_point (array_read (markers st) 0) of
           Inl e \<Rightarrow> (st\<lparr>isPointZoomed := True\<rparr>, [Uncaught e])
         | Inr p \<Rightarrow> zoomToPoint lib p dv (st\<lparr>isPointZoomed := True\<rparr>))
      else (st, []))"

text \<open>The test \<open>every\<close> applies to a marker, lines 154 to 156.\<close>

definition valid_marker :: "jsval \<Rightarrow> js_error + bool" where
  "valid_marker m =
     (if m = JUndefined then Inr False
      else if typeof m \<noteq> ''object'' then Inr False
      else
        (case object_keys m of
           Inl e \<Rightarrow> Inl e
         | Inr ks \<Rightarrow> Inr (length ks > 0)))"

text \<open>\<open>markers.every(valid)\<close>: empty slots are skipped, the first failure ends it.\<close>

fun every_marker :: "slot list \<Rightarrow> js_error + bool" where
  "every_marker [] = Inr True"
| "every_marker (Hole # ms) = every_marker ms"
| "every_marker (Elem m # ms) =
     (case valid_marker m of
        Inl e \<Rightarrow> Inl e
      | Inr ok \<Rightarrow> if ok then every_marker ms else Inr False)"

text \<open>\<open>markers.map((marker) => marker.geometry.point)\<close>: empty slots stay empty.\<close>

fun map_points :: "slot list \<Rightarrow> js_error + slot list" where
  "map_points [] = Inr []"
| "map_points (Hole # ms) =
     (case map_points ms of Inl e \<Rightarrow> Inl e | Inr ps \<Rightarrow> Inr (Hole # ps))"
| "map_points (Elem m # ms) =
     (case marker_point m of
        Inl e \<Rightarrow> Inl e
      | Inr p \<Rightarrow>
          (case map_points ms of Inl e \<Rightarrow> Inl e | Inr ps \<Rightarrow> Inr (Elem p # ps)))"

text \<open>
  Lines 126 to 161, up to the \<open>await\<close>: the effect writes no state. An exception of the
  test escapes the effect; an exception while the arguments of \<open>calculateRoute\<close> are
  computed is caught by the \<open>try\<close> of \<open>route\<close> and logged, and \<open>calculateRoute\<close> is not
  called.
\<close>

definition routeEffect :: "app_state \<Rightarrow> action list" where
  "routeEffect st =
     (if length (markers st) \<ge> 2
      then
        (case every_marker (markers st) of
           Inl e \<Rightarrow> [Uncaught e]
         | Inr ok \<Rightarrow>
             if ok
             then
               (case map_points (markers st) of
                  Inl e \<Rightarrow> [ConsoleLog e]
                | Inr ps \<Rightarrow>
                    [CalculateRoute (routingMode st) ps (carOptions st) (truckOptions st)
                       (departureTime st) (distanceUnit st)])
             else [])
      else [])"

text \<open>
  Lines 138 to 146, after the \<open>await\<close>. \<open>calculateRoute\<close> comes from the hook
  \<open>useAmazonLocationService\<close>, which is not among the sources; the value its promise
  resolves to is the response object of the service.
\<close>

definition routeSettled ::
  "(string \<times> jsval) list settled \<Rightarrow> app_state \<Rightarrow> app_state \<times> action list" where
  "routeSettled r st =
     (case r of
        Resolved res \<Rightarrow>
          (st\<lparr>isRouteZoomedRef := False, route := RouteResult (AList.delete ''$metadata'' res)\<rparr>,
           [])
      | Rejected err \<Rightarrow> (st, [ConsoleLog (Rejection err)]))"

section \<open>Inputs.js: the search input\<close>

text \<open>The state and ref of the \<open>Inputs\<close> component.\<close>

record inputs_state =
  suggestions :: "jsval list"
  focusedInputIdx :: int
  isDirtyRef :: bool

text \<open>White space and line terminators among the code units below 256.\<close>

definition is_white :: "char \<Rightarrow> bool" where
  "is_white c = (of_char c \<in> {9, 10, 11, 12, 13, 32, 160 :: nat})"

text \<open>\<open>String.prototype.trim\<close>.\<close>

definition trim :: "string \<Rightarrow> string" where
  "trim s = rev (dropWhile is_white (rev (dropWhile is_white s)))"

text \<open>\<open>searchByText\<close> up to its \<open>await\<close>: it writes no state.\<close>

definition searchByText :: "string \<Rightarrow> jsval \<Rightarrow> action list" where
  "searchByText v biasPosition =
     (if trim v = '''' then [] else [SearchByText v biasPosition 5])"

text \<open>\<open>searchByText\<close> after the \<open>await\<close>: the promise of \<open>Geo.searchByText\<close> resolves to
  an array of places.\<close>

definition searchByText_settled ::
  "jsval list settled \<Rightarrow> inputs_state \<Rightarrow> inputs_state \<times> action list" where
  "searchByText_settled r st =
     (case r of
        Resolved res \<Rightarrow>
          (st\<lparr>suggestions :=
                (if length res > 0 then res
                 else [JStr ''No result found for this address.''])\<rparr>,
           [SetHasSuggestions True])
      | Rejected err \<Rightarrow> (st, [ConsoleError (Rejection err)]))"

definition handleValueChange ::
  "string \<Rightarrow> jsval \<Rightarrow> nat \<Rightarrow> inputs_state \<Rightarrow> inputs_state \<times> action list" where
  "handleValueChange v biasPosition i st =
     (st\<lparr>focusedInputIdx := int i, isDirtyRef := True\<rparr>, searchByText v biasPosition)"

text \<open>
  The effect of \<open>RoutingMenuInput\<close>, lines 45 to 53. \<open>handler\<close> says whether
  \<open>handleValueChangeRef.current\<close> is set; \<open>Inputs\<close> sets it to \<open>handleValueChange\<close>.
\<close>

definition inputEffect ::
  "string \<Rightarrow> string \<Rightarrow> bool \<Rightarrow> jsval \<Rightarrow> nat \<Rightarrow> inputs_state
     \<Rightarrow> inputs_state \<times> action list" where
  "inputEffect debouncedValue defaultValue handler viewportCenter i st =
     (if debouncedValue \<noteq> defaultValue \<and> handler
      then handleValueChange (trim debouncedValue) viewportCenter i st
      else (st, []))"

section \<open>Runs of the App component\<close>

text \<open>
  One event is one piece of code that runs without waiting: a Hub message handled, a map
  click, a viewport change reported by the map, an effect run, or the part of an
  asynchronous function after its \<open>await\<close>. An effect may run at any time, and a
  suspended \<open>setMarker\<close> may resume with any \<open>markers\<close> array in its closure.
\<close>

datatype event =
    ViewportMsg "viewport_event capsule"
  | ViewportChange jsval
  | MarkersMsg "markers_event capsule"
  | GeocodeSettled "slot list" string setMarker_data "jsval settled"
  | RoutingMsg "routing_event capsule option"
  | MapClick click_event
  | RouteEffect
  | RouteSettled "(string \<times> jsval) list settled"
  | RouteZoomEffect jsval
  | PointZoomEffect jsval

fun step :: "defaultState \<Rightarrow> environment \<Rightarrow> event \<Rightarrow> app_state \<Rightarrow> app_state \<times> action list" where
  "step d lib (ViewportMsg c) st = (handleViewport c st, [])"
| "step d lib (ViewportChange v) st = (st\<lparr>viewport := v\<rparr>, [])"
| "step d lib (MarkersMsg c) st = handleMarkers d c st"
| "step d lib (GeocodeSettled ms src dat r) st = handleMarkers_settled ms src dat r st"
| "step d lib (RoutingMsg m) st = handleRouting d lib m st"
| "step d lib (MapClick e) st = handleMarkers d (handleMapClick st e) st"
| "step d lib RouteEffect st = (st, routeEffect st)"
| "step d lib (RouteSettled r) st = routeSettled r st"
| "step d lib (RouteZoomEffect dv) st = routeZoomEffect lib dv st"
| "step d lib (PointZoomEffect dv) st = pointZoomEffect lib dv st"

fun run ::
  "defaultState \<Rightarrow> environment \<Rightarrow> event list \<Rightarrow> app_state \<Rightarrow> app_state \<times> action list" where
  "run d lib [] st = (st, [])"
| "run d lib (e # es) st =
     (case step d lib e st of
        (st1, a1) \<Rightarrow> (case run d lib es st1 of (st2, a2) \<Rightarrow> (st2, a1 @ a2)))"







section \<open>Predicates of the claims, and example values\<close>

text \<open>The route effect calls \<open>calculateRoute\<close>.\<close>

fun is_calculate_route :: "action \<Rightarrow> bool" where
  "is_calculate_route (CalculateRoute rm ps ca tr dt du) = True"
| "is_calculate_route a = False"

definition route_call_made :: "app_state \<Rightarrow> bool" where
  "route_call_made st = list_ex is_calculate_route (routeEffect st)"

text \<open>A non-empty object; an array is an object, and its elements are its keys.\<close>

definition nonempty_object :: "jsval \<Rightarrow> bool" where
  "nonempty_object m =
     (case m of JObj kvs \<Rightarrow> kvs \<noteq> [] | JArr xs \<Rightarrow> xs \<noteq> [] | _ \<Rightarrow> False)"

text \<open>The slot holds a defined, non-empty object.\<close>

definition claimed_valid :: "slot \<Rightarrow> bool" where
  "claimed_valid s = (case s of Hole \<Rightarrow> False | Elem m \<Rightarrow> nonempty_object m)"

text \<open>The \<open>geometry\<close> of a marker is there: neither \<open>undefined\<close> nor \<open>null\<close>.\<close>

definition has_geometry :: "jsval \<Rightarrow> bool" where
  "has_geometry m =
     (case get_prop m ''geometry'' of
        Inl e \<Rightarrow> False
      | Inr g \<Rightarrow> g \<noteq> JUndefined \<and> g \<noteq> JNull)"


text \<open>What an option object reads as, with the cells as they are.\<close>

fun of_prim :: "prim \<Rightarrow> jsval" where
  "of_prim PUndefined = JUndefined"
| "of_prim PNull = JNull"
| "of_prim (PBool b) = JBool b"
| "of_prim (PNum x) = JNum x"
| "of_prim (PStr s) = JStr s"

fun read_option :: "(nat \<Rightarrow> (string \<times> jsval) list) \<Rightarrow> option_value \<Rightarrow> jsval" where
  "read_option h (Scalar p) = of_prim p"
| "read_option h (Group a) = JObj (h a)"

definition read_options :: "(nat \<Rightarrow> (string \<times> jsval) list) \<Rightarrow> options \<Rightarrow> jsval" where
  "read_options h opts = JObj (map (\<lambda>kv. (fst kv, read_option h (snd kv))) opts)"

text \<open>
  What the states used as examples share. The truck options of the examples have the two
  nested objects that \<open>changeUnits\<close> writes to, in the cells 0 and 1, and the example
  state starts with the default options. The example environment has the two systems of
  units; its \<open>number_gt\<close> is not used, the widths of the examples are numbers.
\<close>

definition example_truckOptions :: options where
  "example_truckOptions =
     [(''AvoidFerries'', Scalar (PBool False)), (''AvoidTolls'', Scalar (PBool False)),
      (''Dimensions'', Group 0), (''Weight'', Group 1)]"

definition example_carOptions :: options where
  "example_carOptions =
     [(''AvoidFerries'', Scalar (PBool False)), (''AvoidTolls'', Scalar (PBool False))]"

definition example_objects :: "nat \<Rightarrow> (string \<times> jsval) list" where
  "example_objects =
     (\<lambda>a. [])
       (0 := [(''Height'', JNum 0), (''Length'', JNum 0), (''Width'', JNum 0),
              (''Unit'', JStr ''Meters'')],
        1 := [(''Total'', JNum 0), (''Unit'', JStr ''Kilograms'')])"

definition example_defaults :: defaultState where
  "example_defaults =
     \<lparr>d_markers = [], d_isRouting = False, d_routingMode = JStr ''Car'',
      d_truckOptions = example_truckOptions, d_carOptions = example_carOptions,
      d_departureTime = ValidDate 0,
      d_distanceUnit = JStr ''Kilometers'', d_units = JStr ''metric''\<rparr>"

definition example_state :: app_state where
  "example_state =
     \<lparr>viewport = JObj [(''latitude'', JNum 36), (''longitude'', JNum (- 115)),
         (''zoom'', JNum 13)],
      markers = [], isRouting = False, route = DefaultRoute, routingMode = JStr ''Car'',
      truckOptions = example_truckOptions, carOptions = example_carOptions,
      departureTime = ValidDate 0,
      distanceUnit = JStr ''Kilometers'', units = JStr ''metric'',
      isRouteZoomedRef = False, isPointZoomed = False,
      objects = example_objects, next_object = 2\<rparr>"

definition ascii_upper :: "string \<Rightarrow> string" where
  "ascii_upper s =
     map (\<lambda>c. case map_of (zip ''abcdefghijklmnopqrstuvwxyz''
                              ''ABCDEFGHIJKLMNOPQRSTUVWXYZ'') c of
                None \<Rightarrow> c
              | Some u \<Rightarrow> u) s"

definition example_unitsEnum :: "string \<Rightarrow> jsval" where
  "example_unitsEnum s =
     (if ascii_upper s = ''METRIC''
      then JObj [(''distance'', JStr ''Kilometers''), (''weight'', JStr ''Kilograms''),
                 (''dimensions'', JStr ''Meters'')]
      else if ascii_upper s = ''IMPERIAL''
      then JObj [(''distance'', JStr ''Miles''), (''weight'', JStr ''Pounds''),
                 (''dimensions'', JStr ''Feet'')]
      else JUndefined)"

definition example_lib :: environment where
  "example_lib =
     \<lparr>fitBounds = (\<lambda>vp bounds right. (JNum 0, JNum 0, JNum 10)),
      flyToInterpolator = JObj [(''speed'', JNum 0.8)],
      number_gt = (\<lambda>v r. False),
      routingMode_CAR = ''Car'', routingMode_TRUCK = ''Truck'',
      unitsEnum_upper = example_unitsEnum\<rparr>"


definition example_place :: "real \<Rightarrow> real \<Rightarrow> string \<Rightarrow> jsval" where
  "example_place lng lat l =
     JObj [(''geometry'', JObj [(''point'', JArr [JNum lng, JNum lat])]),
           (''label'', JStr l)]"

section \<open>Claims about the markers and the view\<close>

lemma example_state_fields:
  "markers example_state = []" "isRouting example_state = False"
  "route example_state = DefaultRoute" "isRouteZoomedRef example_state = False"
  "isPointZoomed example_state = False"
  by (simp_all add: example_state_def)

lemma example_defaults_markers: "d_markers example_defaults = []"
  by (simp add: example_defaults_def)

lemma example_place_defined: "example_place x y l \<noteq> JUndefined"
  by (simp add: example_place_def)

subsection \<open>Resetting the view\<close>

text \<open>
  What \<open>resetView\<close> writes: markers, route, isRouting, routingMode, truckOptions,
  carOptions and departureTime become what \<open>defaultState\<close> holds, both zoom flags are
  cleared, and the viewport, the distanceUnit, the units and the cells are left alone. The
  events endRouting, closeToast and cleanUp do exactly this.
\<close>

lemma resetView_writes:
  "resetView d st =
     \<lparr>viewport = viewport st, markers = d_markers d, isRouting = d_isRouting d,
      route = DefaultRoute, routingMode = d_routingMode d,
      truckOptions = d_truckOptions d, carOptions = d_carOptions d,
      departureTime = d_departureTime d, distanceUnit = distanceUnit st,
      units = units st, isRouteZoomedRef = False, isPointZoomed = False,
      objects = objects st, next_object = next_object st\<rparr>"
  by (cases st) (simp add: resetView_def)

lemma reset_events:
  "handleRouting d env (Some \<lparr>payload = EndRouting, source = src\<rparr>) st = (resetView d st, [])"
  "handleMarkers d \<lparr>payload = CloseToast, source = src\<rparr> st = (resetView d st, [])"
  "handleMarkers d \<lparr>payload = CleanUp, source = src\<rparr> st = (resetView d st, [])"
  by (simp_all add: handleRouting_def handleMarkers_def)

text \<open>
  C10, on the code: a reset should give \<open>truckOptions\<close> its default value back. It gives
  back the default object, and that object need not have its default value any more. The
  state starts with \<open>truckOptions\<close> being \<open>defaultState.truckOptions\<close>, metric units.
  \<open>changeUnits\<close> to imperial copies the object one level deep and writes the new units
  into \<open>Weight\<close> and \<open>Dimensions\<close> of the copy, which are the nested objects of
  \<open>defaultState.truckOptions\<close>. After \<open>endRouting\<close> the state holds the default object
  again, and it reads pounds and feet where the default was kilograms and meters. The
  distanceUnit and the units stay imperial, as they should.
\<close>

theorem reset_after_changeUnits:
  "truckOptions example_state = d_truckOptions example_defaults
   \<and> read_options (objects example_state) (d_truckOptions example_defaults)
     = JObj [(''AvoidFerries'', JBool False), (''AvoidTolls'', JBool False),
         (''Dimensions'', JObj [(''Height'', JNum 0), (''Length'', JNum 0),
            (''Width'', JNum 0), (''Unit'', JStr ''Meters'')]),
         (''Weight'', JObj [(''Total'', JNum 0), (''Unit'', JStr ''Kilograms'')])]
   \<and> truckOptions (fst (run example_defaults example_lib
        [RoutingMsg (Some \<lparr>payload = ChangeUnits ''imperial'', source = ''routingMenu''\<rparr>),
         RoutingMsg (Some \<lparr>payload = EndRouting, source = ''routingMenu''\<rparr>)]
        (example_state\<lparr>isRouting := True\<rparr>)))
     = d_truckOptions example_defaults
   \<and> read_options
        (objects (fst (run example_defaults example_lib
          [RoutingMsg (Some \<lparr>payload = ChangeUnits ''imperial'', source = ''routingMenu''\<rparr>),
           RoutingMsg (Some \<lparr>payload = EndRouting, source = ''routingMenu''\<rparr>)]
          (example_state\<lparr>isRouting := True\<rparr>))))
        (truckOptions (fst (run example_defaults example_lib
          [RoutingMsg (Some \<lparr>payload = ChangeUnits ''imperial'', source = ''routingMenu''\<rparr>),
           RoutingMsg (Some \<lparr>payload = EndRouting, source = ''routingMenu''\<rparr>)]
          (example_state\<lparr>isRouting := True\<rparr>))))
     = JObj [(''AvoidFerries'', JBool False), (''AvoidTolls'', JBool False),
         (''Dimensions'', JObj [(''Height'', JNum 0), (''Length'', JNum 0),
            (''Width'', JNum 0), (''Unit'', JStr ''Feet'')]),
         (''Weight'', JObj [(''Total'', JNum 0), (''Unit'', JStr ''Pounds'')])]
   \<and> snd (run example_defaults example_lib
        [RoutingMsg (Some \<lparr>payload = ChangeUnits ''imperial'', source = ''routingMenu''\<rparr>),
         RoutingMsg (Some \<lparr>payload = EndRouting, source = ''routingMenu''\<rparr>)]
        (example_state\<lparr>isRouting := True\<rparr>)) = []"
proof -
  have entry: "unitsEnum_upper example_lib ''imperial''
      = JObj [(''distance'', JStr ''Miles''), (''weight'', JStr ''Pounds''),
              (''dimensions'', JStr ''Feet'')]"
    by (simp add: example_lib_def example_unitsEnum_def ascii_upper_def)
  have step1: "handleRouting example_defaults example_lib
      (Some \<lparr>payload = ChangeUnits ''imperial'', source = ''routingMenu''\<rparr>)
      (example_state\<lparr>isRouting := True\<rparr>)
      = (example_state\<lparr>isRouting := True, distanceUnit := JStr ''Miles'',
           objects := example_objects
             (1 := [(''Total'', JNum 0), (''Unit'', JStr ''Pounds'')],
              0 := [(''Height'', JNum 0), (''Length'', JNum 0), (''Width'', JNum 0),
                    (''Unit'', JStr ''Feet'')]),
           units := JStr ''imperial''\<rparr>, [])"
    by (simp add: handleRouting_def changeUnits_def assign_unit_def entry
        example_state_def example_truckOptions_def example_objects_def)
  have step2: "handleRouting example_defaults example_lib
      (Some \<lparr>payload = EndRouting, source = ''routingMenu''\<rparr>) s
      = (resetView example_defaults s, [])" for s
    by (simp add: handleRouting_def)
  have run_eq: "run example_defaults example_lib
        [RoutingMsg (Some \<lparr>payload = ChangeUnits ''imperial'', source = ''routingMenu''\<rparr>),
         RoutingMsg (Some \<lparr>payload = EndRouting, source = ''routingMenu''\<rparr>)]
        (example_state\<lparr>isRouting := True\<rparr>)
      = (resetView example_defaults
          (example_state\<lparr>isRouting := True, distanceUnit := JStr ''Miles'',
             objects := example_objects
               (1 := [(''Total'', JNum 0), (''Unit'', JStr ''Pounds'')],
                0 := [(''Height'', JNum 0), (''Length'', JNum 0), (''Width'', JNum 0),
                      (''Unit'', JStr ''Feet'')]),
             units := JStr ''imperial''\<rparr>), [])"
    by (simp add: step1 step2)
  show ?thesis
    unfolding run_eq
    by (simp add: resetView_def example_state_def example_defaults_def
        example_truckOptions_def example_objects_def read_options_def)
qed

subsection \<open>Swapping the markers\<close>

text \<open>
  An array of length two need not hold two markers: \<open>setMarker\<close> with index 1 on an empty
  array leaves the first slot empty.
\<close>

lemma sparse_markers:
  "markers (place_marker [] src
      \<lparr>idx = 1, lngLat = JUndefined, marker = m, geocode = False, force = True\<rparr> m st)
     = [Hole, Elem (with_source m src)]"
  by (simp add: place_marker_def array_spread_def array_read_def array_write_def)




subsection \<open>Clicks on the map\<close>

text \<open>
  C7: a click while there is at least one marker and routing is off dispatches cleanUp,
  which resets the view: the markers are the default ones (none, when the default list is
  empty), and no reverse geocoding is started. Any other click with no marker or two
  markers dispatches setMarker from the source map with index 0, the clicked position,
  geocode true and force true; with exactly one marker, the same with force false. Both
  start the reverse geocoder for the clicked position. With force false and one marker
  \<open>old\<close> in the array, the geocoded place, tagged with the source, goes first and \<open>old\<close>
  second.
\<close>

theorem handleMapClick_cases:
  "(length (markers st) > 0 \<and> \<not> isRouting st \<longrightarrow>
      handleMapClick st e = \<lparr>payload = CleanUp, source = ''''\<rparr>
      \<and> step d lib (MapClick e) st = (resetView d st, [])
      \<and> markers (fst (step d lib (MapClick e) st)) = d_markers d
      \<and> (d_markers d = [] \<longrightarrow> markers (fst (step d lib (MapClick e) st)) = []))
   \<and> (\<not> (length (markers st) > 0 \<and> \<not> isRouting st)
       \<and> (length (markers st) = 0 \<or> length (markers st) = 2) \<longrightarrow>
      handleMapClick st e =
        \<lparr>payload = SetMarker (Some \<lparr>idx = 0, lngLat = click_lngLat e, marker = JUndefined,
           geocode = True, force = True\<rparr>), source = ''map''\<rparr>
      \<and> step d lib (MapClick e) st = (st, [SearchByCoordinates (click_lngLat e)]))
   \<and> (\<not> (length (markers st) > 0 \<and> \<not> isRouting st) \<and> length (markers st) = 1 \<longrightarrow>
      handleMapClick st e =
        \<lparr>payload = SetMarker (Some \<lparr>idx = 0, lngLat = click_lngLat e, marker = JUndefined,
           geocode = True, force = False\<rparr>), source = ''map''\<rparr>
      \<and> step d lib (MapClick e) st = (st, [SearchByCoordinates (click_lngLat e)]))
   \<and> (markers st = [Elem old] \<and> old \<noteq> JUndefined \<longrightarrow>
      markers (fst (handleMarkers_settled (markers st) ''map''
          \<lparr>idx = 0, lngLat = click_lngLat e, marker = JUndefined, geocode = True,
           force = False\<rparr> (Resolved m) st'))
        = [Elem (with_source m ''map''), Elem old])"
  by (auto simp: handleMapClick_def handleMarkers_def handleMarkers_settled_def
      place_marker_def array_spread_def array_read_def resetView_def Let_def)

theorem handleMapClick_cases_witness:
  "handleMapClick (example_state\<lparr>markers := [Elem (example_place 1 2 ''A'')]\<rparr>)
      \<lparr>click_lngLat = JArr [JNum 3, JNum 4]\<rparr> = \<lparr>payload = CleanUp, source = ''''\<rparr>
   \<and> markers (fst (step example_defaults example_lib
        (MapClick \<lparr>click_lngLat = JArr [JNum 3, JNum 4]\<rparr>)
        (example_state\<lparr>markers := [Elem (example_place 1 2 ''A'')]\<rparr>))) = []
   \<and> handleMapClick example_state \<lparr>click_lngLat = JArr [JNum 3, JNum 4]\<rparr> =
        \<lparr>payload = SetMarker (Some \<lparr>idx = 0, lngLat = JArr [JNum 3, JNum 4],
           marker = JUndefined, geocode = True, force = True\<rparr>), source = ''map''\<rparr>
   \<and> handleMapClick
        (example_state\<lparr>markers := [Elem (example_place 1 2 ''A'')], isRouting := True\<rparr>)
        \<lparr>click_lngLat = JArr [JNum 3, JNum 4]\<rparr> =
        \<lparr>payload = SetMarker (Some \<lparr>idx = 0, lngLat = JArr [JNum 3, JNum 4],
           marker = JUndefined, geocode = True, force = False\<rparr>), source = ''map''\<rparr>
   \<and> markers (fst (handleMarkers_settled [Elem (example_place 1 2 ''A'')] ''map''
          \<lparr>idx = 0, lngLat = JArr [JNum 3, JNum 4], marker = JUndefined, geocode = True,
           force = False\<rparr> (Resolved (example_place 3 4 ''B''))
          (example_state\<lparr>markers := [Elem (example_place 1 2 ''A'')], isRouting := True\<rparr>)))
        = [Elem (with_source (example_place 3 4 ''B'') ''map''),
           Elem (example_place 1 2 ''A'')]"
  using
    handleMapClick_cases [where st = "example_state\<lparr>markers := [Elem (example_place 1 2 ''A'')]\<rparr>"
      and e = "\<lparr>click_lngLat = JArr [JNum 3, JNum 4]\<rparr>" and d = example_defaults
      and lib = example_lib and old = JNull and m = JNull and st' = example_state]
    handleMapClick_cases [where st = example_state
      and e = "\<lparr>click_lngLat = JArr [JNum 3, JNum 4]\<rparr>" and d = example_defaults
      and lib = example_lib and old = JNull and m = JNull and st' = example_state]
    handleMapClick_cases [where
      st = "example_state\<lparr>markers := [Elem (example_place 1 2 ''A'')], isRouting := True\<rparr>"
      and e = "\<lparr>click_lngLat = JArr [JNum 3, JNum 4]\<rparr>" and d = example_defaults
      and lib = example_lib and old = "example_place 1 2 ''A''"
      and m = "example_place 3 4 ''B''"
      and st' = "example_state\<lparr>markers := [Elem (example_place 1 2 ''A'')], isRouting := True\<rparr>"]
  by (auto simp: example_state_fields example_defaults_markers example_place_defined)

subsection \<open>A reverse geocoder that rejects\<close>

text \<open>
  C1, on the code: every marker that \<open>setMarker\<close> stores should have a
  \<open>geometry.point\<close>, also when the reverse geocoder rejects. It does not. With two
  markers and routing on, a click starts the reverse geocoder; when that rejects, the
  handler logs the error and goes on to store the marker \<open>{source: ''map''}\<close> in the
  first slot. That marker passes the test of the route effect, and reading its
  \<open>geometry.point\<close> throws: the route effect logs a TypeError and calls nothing.
\<close>

theorem rejected_geocode_breaks_route_effect:
  "run example_defaults example_lib
     [MapClick \<lparr>click_lngLat = JArr [JNum 5, JNum 6]\<rparr>,
      GeocodeSettled [Elem (example_place 1 2 ''A''), Elem (example_place 3 4 ''B'')] ''map''
        \<lparr>idx = 0, lngLat = JArr [JNum 5, JNum 6], marker = JUndefined, geocode = True,
         force = True\<rparr> (Rejected (JStr ''Network Error'')),
      RouteEffect]
     (example_state\<lparr>isRouting := True,
        markers := [Elem (example_place 1 2 ''A''), Elem (example_place 3 4 ''B'')]\<rparr>)
   = (example_state\<lparr>isRouting := True,
        markers := [Elem (JObj [(''source'', JStr ''map'')]), Elem (example_place 3 4 ''B'')]\<rparr>,
      [SearchByCoordinates (JArr [JNum 5, JNum 6]),
       ConsoleLog (Rejection (JStr ''Network Error'')),
       ConsoleLog TypeError])
   \<and> valid_marker (JObj [(''source'', JStr ''map'')]) = Inr True
   \<and> marker_point (JObj [(''source'', JStr ''map'')]) = Inl TypeError"
  by (simp add: example_state_def example_place_def handleMapClick_def handleMarkers_def
      handleMarkers_settled_def place_marker_def array_spread_def array_read_def
      array_write_def with_source_def routeEffect_def valid_marker_def marker_point_def)

text \<open>
  C2, on the code: a rejected call should leave the state as it was. The text search and
  the route calculation do; the reverse geocoder does not. With no marker, a click starts
  it; when it rejects, the error is logged and the markers, empty before, hold
  \<open>{source: ''map''}\<close>; the point zoom effect then fails on that marker with an
  uncaught TypeError.
\<close>

theorem rejected_geocode_changes_markers:
  "run example_defaults example_lib
     [MapClick \<lparr>click_lngLat = JArr [JNum 5, JNum 6]\<rparr>,
      GeocodeSettled [] ''map''
        \<lparr>idx = 0, lngLat = JArr [JNum 5, JNum 6], marker = JUndefined, geocode = True,
         force = True\<rparr> (Rejected (JStr ''Network Error'')),
      PointZoomEffect (JObj [])]
     example_state
   = (example_state\<lparr>markers := [Elem (JObj [(''source'', JStr ''map'')])],
        isPointZoomed := True\<rparr>,
      [SearchByCoordinates (JArr [JNum 5, JNum 6]),
       ConsoleLog (Rejection (JStr ''Network Error'')),
       Uncaught TypeError])
   \<and> markers (fst (handleMarkers_settled (markers example_state) ''map''
        \<lparr>idx = 0, lngLat = JArr [JNum 5, JNum 6], marker = JUndefined, geocode = True,
         force = True\<rparr> (Rejected (JStr ''Network Error'')) example_state))
       \<noteq> markers example_state"
  by (simp add: example_state_def handleMapClick_def handleMarkers_def
      handleMarkers_settled_def place_marker_def array_spread_def array_read_def
      array_write_def with_source_def pointZoomEffect_def marker_point_def)

lemma searchByText_rejected_keeps_state:
  "searchByText_settled (Rejected err) st = (st, [ConsoleError (Rejection err)])"
  by (simp add: searchByText_settled_def)

lemma route_rejected_keeps_state:
  "routeSettled (Rejected err) st = (st, [ConsoleLog (Rejection err)])"
  by (simp add: routeSettled_def)

subsection \<open>The last response\<close>

text \<open>
  C3, as the claim has it, fails: a text search that resolves with no result does not set
  the suggestions to the empty list, it sets them to a list holding one message.
\<close>

theorem empty_result_counterexample:
  "suggestions (fst (searchByText_settled (Resolved [])
      \<lparr>suggestions = [], focusedInputIdx = 0, isDirtyRef = True\<rparr>))
     = [JStr ''No result found for this address.'']
   \<and> suggestions (fst (searchByText_settled (Resolved [])
      \<lparr>suggestions = [], focusedInputIdx = 0, isDirtyRef = True\<rparr>)) \<noteq> []"
  by (simp add: searchByText_settled_def)

text \<open>
  C3, amended: when a text search resolves with at least one result, the suggestions are
  exactly the results; when it resolves with none, they are the one message
  \<open>No result found for this address.\<close>; both times \<open>setHasSuggestions(true)\<close> is called.
  When a route calculation resolves, the route is the response without its
  \<open>$metadata\<close> property, every other property kept in place, and the route zoom flag is
  cleared.
\<close>

theorem last_response_shown:
  "(res \<noteq> [] \<longrightarrow>
      searchByText_settled (Resolved res) ist
        = (ist\<lparr>suggestions := res\<rparr>, [SetHasSuggestions True]))
   \<and> (res = [] \<longrightarrow>
      searchByText_settled (Resolved res) ist
        = (ist\<lparr>suggestions := [JStr ''No result found for this address.'']\<rparr>,
           [SetHasSuggestions True]))
   \<and> routeSettled (Resolved r) st
        = (st\<lparr>isRouteZoomedRef := False,
              route := RouteResult (filter (\<lambda>kv. fst kv \<noteq> ''$metadata'') r)\<rparr>, [])"
proof -
  have "AList.delete ''$metadata'' r = filter (\<lambda>kv. fst kv \<noteq> ''$metadata'') r"
    by (induction r) (auto simp: AList.delete_eq)
  then show ?thesis
    by (simp add: searchByText_settled_def routeSettled_def)
qed

theorem last_response_shown_witness:
  "searchByText_settled (Resolved [example_place 1 2 ''A''])
      \<lparr>suggestions = [], focusedInputIdx = 0, isDirtyRef = True\<rparr>
     = (\<lparr>suggestions = [example_place 1 2 ''A''], focusedInputIdx = 0, isDirtyRef = True\<rparr>,
        [SetHasSuggestions True])
   \<and> searchByText_settled (Resolved [])
      \<lparr>suggestions = [example_place 1 2 ''A''], focusedInputIdx = 0, isDirtyRef = True\<rparr>
     = (\<lparr>suggestions = [JStr ''No result found for this address.''], focusedInputIdx = 0,
         isDirtyRef = True\<rparr>, [SetHasSuggestions True])
   \<and> route (fst (routeSettled
        (Resolved [(''$metadata'', JObj [(''httpStatusCode'', JNum 200)]),
           (''Legs'', JArr []), (''Summary'', JObj [])]) example_state))
     = RouteResult [(''Legs'', JArr []), (''Summary'', JObj [])]"
  using
    last_response_shown [of "[example_place 1 2 ''A'']"
      "\<lparr>suggestions = [], focusedInputIdx = 0, isDirtyRef = True\<rparr>"
      "[(''$metadata'', JObj [(''httpStatusCode'', JNum 200)]),
           (''Legs'', JArr []), (''Summary'', JObj [])]" example_state]
    last_response_shown [of "[]"
      "\<lparr>suggestions = [example_place 1 2 ''A''], focusedInputIdx = 0, isDirtyRef = True\<rparr>"
      "[(''$metadata'', JObj [(''httpStatusCode'', JNum 200)]),
           (''Legs'', JArr []), (''Summary'', JObj [])]" example_state]
  by simp

subsection \<open>When the route is calculated\<close>

lemma valid_marker_iff: "valid_marker m = Inr True \<longleftrightarrow> nonempty_object m"
  by (cases m) (simp_all add: valid_marker_def nonempty_object_def)

lemma every_marker_iff:
  "every_marker ms = Inr True \<longleftrightarrow> (\<forall>m. Elem m \<in> set ms \<longrightarrow> valid_marker m = Inr True)"
  by (induction ms rule: every_marker.induct) (auto split: sum.splits)

lemma get_prop_defined:
  "(\<exists>v. get_prop g k = Inr v) \<longleftrightarrow> g \<noteq> JUndefined \<and> g \<noteq> JNull"
  by (cases g) simp_all

lemma marker_point_iff: "(\<exists>p. marker_point m = Inr p) \<longleftrightarrow> has_geometry m"
  using get_prop_defined
  by (auto simp: marker_point_def has_geometry_def split: sum.splits)

lemma map_points_iff:
  "(\<exists>ps. map_points ms = Inr ps) \<longleftrightarrow>
     (\<forall>m. Elem m \<in> set ms \<longrightarrow> (\<exists>p. marker_point m = Inr p))"
  by (induction ms rule: map_points.induct) (auto split: sum.splits)

lemma route_call_made_iff:
  "route_call_made st \<longleftrightarrow>
     length (markers st) \<ge> 2 \<and> every_marker (markers st) = Inr True
     \<and> (\<exists>ps. map_points (markers st) = Inr ps)"
  by (auto simp: route_call_made_def routeEffect_def split: sum.splits)

text \<open>When the route effect calls \<open>calculateRoute\<close>, and with what.\<close>

lemma route_call_made_exactly:
  "(route_call_made st \<longleftrightarrow>
      length (markers st) \<ge> 2
      \<and> (\<forall>m. Elem m \<in> set (markers st) \<longrightarrow> nonempty_object m \<and> has_geometry m))
   \<and> (route_call_made st \<longrightarrow>
        (\<exists>ps. map_points (markers st) = Inr ps
           \<and> routeEffect st = [CalculateRoute (routingMode st) ps (carOptions st)
                  (truckOptions st) (departureTime st) (distanceUnit st)]))"
proof -
  have main: "route_call_made st \<longleftrightarrow>
      length (markers st) \<ge> 2
      \<and> (\<forall>m. Elem m \<in> set (markers st) \<longrightarrow> nonempty_object m \<and> has_geometry m)"
    unfolding route_call_made_iff every_marker_iff map_points_iff
      valid_marker_iff marker_point_iff by blast
  have call: "route_call_made st \<longrightarrow>
        (\<exists>ps. map_points (markers st) = Inr ps
           \<and> routeEffect st = [CalculateRoute (routingMode st) ps (carOptions st)
                  (truckOptions st) (departureTime st) (distanceUnit st)])"
    by (auto simp: route_call_made_def routeEffect_def split: sum.splits)
  from main call show ?thesis by blast
qed

text \<open>
  C4, on the code: the route effect should call \<open>calculateRoute\<close> exactly when the array
  holds at least two markers and every marker is a defined, non-empty object, as the
  comment of the effect says: only when there are at least two valid markers. Its test
  does less. With the markers \<open>{source: ''map''}\<close>, which a rejected reverse geocoding
  leaves behind, and a place, both defined and non-empty, the test passes, and reading
  \<open>geometry.point\<close> of the first throws before \<open>calculateRoute\<close> is called: the error is
  logged and no route is calculated. With an array of length two that holds one marker
  after an empty slot, \<open>every\<close> and \<open>map\<close> skip the slot, and \<open>calculateRoute\<close> is called
  with a single point.
\<close>

theorem route_effect_invalid_markers:
  "2 \<le> length (markers (example_state\<lparr>isRouting := True,
        markers := [Elem (JObj [(''source'', JStr ''map'')]), Elem (example_place 1 2 ''A'')]\<rparr>))
   \<and> list_all claimed_valid (markers (example_state\<lparr>isRouting := True,
        markers := [Elem (JObj [(''source'', JStr ''map'')]), Elem (example_place 1 2 ''A'')]\<rparr>))
   \<and> every_marker [Elem (JObj [(''source'', JStr ''map'')]), Elem (example_place 1 2 ''A'')]
       = Inr True
   \<and> routeEffect (example_state\<lparr>isRouting := True,
        markers := [Elem (JObj [(''source'', JStr ''map'')]), Elem (example_place 1 2 ''A'')]\<rparr>)
       = [ConsoleLog TypeError]
   \<and> \<not> route_call_made (example_state\<lparr>isRouting := True,
        markers := [Elem (JObj [(''source'', JStr ''map'')]), Elem (example_place 1 2 ''A'')]\<rparr>)
   \<and> \<not> list_all claimed_valid (markers (example_state\<lparr>isRouting := True,
        markers := [Hole, Elem (example_place 3 4 ''B'')]\<rparr>))
   \<and> routeEffect (example_state\<lparr>isRouting := True,
        markers := [Hole, Elem (example_place 3 4 ''B'')]\<rparr>)
       = [CalculateRoute (JStr ''Car'') [Hole, Elem (JArr [JNum 3, JNum 4])]
            example_carOptions example_truckOptions (ValidDate 0) (JStr ''Kilometers'')]
   \<and> route_call_made (example_state\<lparr>isRouting := True,
        markers := [Hole, Elem (example_place 3 4 ''B'')]\<rparr>)"
  by (simp add: claimed_valid_def nonempty_object_def example_place_def route_call_made_def
      routeEffect_def valid_marker_def marker_point_def example_state_def)

subsection \<open>The debounced search\<close>

lemma trim_empty: "trim [] = []"
  by (simp add: trim_def)

lemma hd_strip_end:
  "rev (dropWhile P (rev ys)) \<noteq> [] \<Longrightarrow> hd (rev (dropWhile P (rev ys))) = hd ys"
proof (induction ys rule: rev_induct)
  case Nil
  then show ?case by simp
next
  case (snoc x xs)
  show ?case
  proof (cases "P x")
    case True
    with snoc.prems have ne: "rev (dropWhile P (rev xs)) \<noteq> []" by simp
    then have "xs \<noteq> []" by auto
    with snoc.IH [OF ne] True show ?thesis by simp
  next
    case False
    then show ?thesis by simp
  qed
qed

lemma trim_idem: "trim (trim s) = trim s"
proof (cases "trim s = []")
  case True
  then show ?thesis by (simp add: trim_empty)
next
  case False
  let ?ys = "dropWhile is_white s"
  from False have ne: "rev (dropWhile is_white (rev ?ys)) \<noteq> []"
    by (simp add: trim_def)
  then have "?ys \<noteq> []" by (metis dropWhile.simps(1) rev.simps(1))
  then have "\<not> is_white (hd ?ys)" by (rule hd_dropWhile)
  with hd_strip_end [OF ne] have "\<not> is_white (hd (trim s))"
    by (simp add: trim_def)
  with False have "dropWhile is_white (trim s) = trim s"
    by (cases "trim s") simp_all
  then have "trim (trim s) = rev (dropWhile is_white (rev (trim s)))"
    by (simp add: trim_def)
  also have "\<dots> = trim s"
    by (simp add: trim_def)
  finally show ?thesis .
qed

text \<open>
  C5: the effect of a search input starts a remote text search exactly when the debounced
  value differs from the default value of the input, the handler is set, and the value
  does not trim to the empty string; the search is made with the trimmed value, the
  viewport center as bias position and at most five results. A value that trims to the
  empty string starts no search, whoever calls \<open>handleValueChange\<close> with it.
\<close>

theorem debounced_search:
  "snd (inputEffect debouncedValue defaultValue handler viewportCenter i st) =
     (if debouncedValue \<noteq> defaultValue \<and> handler \<and> trim debouncedValue \<noteq> []
      then [SearchByText (trim debouncedValue) viewportCenter 5] else [])
   \<and> (trim v = [] \<longrightarrow> snd (handleValueChange v biasPosition i st) = [])"
proof -
  have handler: "snd (handleValueChange w b j s) =
      (if trim w = [] then [] else [SearchByText w b 5])" for w b j s
    by (simp add: handleValueChange_def searchByText_def)
  have "snd (inputEffect debouncedValue defaultValue handler viewportCenter i st) =
      (if debouncedValue \<noteq> defaultValue \<and> handler
       then snd (handleValueChange (trim debouncedValue) viewportCenter i st) else [])"
    by (simp add: inputEffect_def)
  also have "\<dots> =
      (if debouncedValue \<noteq> defaultValue \<and> handler \<and> trim debouncedValue \<noteq> []
       then [SearchByText (trim debouncedValue) viewportCenter 5] else [])"
    by (simp add: handler trim_idem trim_empty)
  finally show ?thesis by (simp add: handler)
qed

theorem debounced_search_witness:
  "snd (inputEffect ''  1 Main St '' ''Main St, 1'' True (JArr [JNum (- 115), JNum 36]) 0
      \<lparr>suggestions = [], focusedInputIdx = - 1, isDirtyRef = False\<rparr>)
     = [SearchByText ''1 Main St'' (JArr [JNum (- 115), JNum 36]) 5]
   \<and> snd (inputEffect ''Main St, 1'' ''Main St, 1'' True (JArr [JNum (- 115), JNum 36]) 0
      \<lparr>suggestions = [], focusedInputIdx = - 1, isDirtyRef = False\<rparr>) = []
   \<and> snd (inputEffect ''   '' ''Main St, 1'' True (JArr [JNum (- 115), JNum 36]) 0
      \<lparr>suggestions = [], focusedInputIdx = - 1, isDirtyRef = False\<rparr>) = []
   \<and> snd (handleValueChange ''   '' (JArr [JNum (- 115), JNum 36]) 0
      \<lparr>suggestions = [], focusedInputIdx = - 1, isDirtyRef = False\<rparr>) = []"
  using
    debounced_search [of "''  1 Main St ''" "''Main St, 1''" True "JArr [JNum (- 115), JNum 36]" 0
      "\<lparr>suggestions = [], focusedInputIdx = - 1, isDirtyRef = False\<rparr>" "''   ''"
      "JArr [JNum (- 115), JNum 36]"]
    debounced_search [of "''Main St, 1''" "''Main St, 1''" True "JArr [JNum (- 115), JNum 36]" 0
      "\<lparr>suggestions = [], focusedInputIdx = - 1, isDirtyRef = False\<rparr>" "''   ''"
      "JArr [JNum (- 115), JNum 36]"]
    debounced_search [of "''   ''" "''Main St, 1''" True "JArr [JNum (- 115), JNum 36]" 0
      "\<lparr>suggestions = [], focusedInputIdx = - 1, isDirtyRef = False\<rparr>" "''   ''"
      "JArr [JNum (- 115), JNum 36]"]
  by (simp add: trim_def is_white_def)

subsection \<open>Zooming to the route\<close>























section \<open>Address formatting\<close>

lemma push_defined_append:
  "push_defined f xs = xs @ List.map_filter id [f]"
  by (cases f) (simp_all add: push_defined_def List.map_filter_def)

lemma formatAddress_fields:
  "\<not> truthy_field (label a) \<Longrightarrow> formatAddress a = join '', '' (defined_fields a)"
  by (simp add: formatAddress_def defined_fields_def push_defined_append
      List.map_filter_def Let_def)

text \<open>
  C9, as the claim has it, fails: a label that is present but empty is not returned, the
  joined fields are.
\<close>

theorem formatAddress_empty_label_counterexample:
  "label \<lparr>label = Some '''', street = Some ''Main St'', addressNumber = None,
      postalCode = None, municipality = None, country = None\<rparr> = Some ''''
   \<and> formatAddress \<lparr>label = Some '''', street = Some ''Main St'', addressNumber = None,
      postalCode = None, municipality = None, country = None\<rparr> = ''Main St''"
  by (simp add: formatAddress_def truthy_field_def push_defined_def)

text \<open>
  C9, amended: \<open>formatAddress\<close> returns the label when it is present and not empty;
  otherwise (the label absent or empty) it returns the join, with separator comma and
  space, of exactly those of street, addressNumber, postalCode and municipality that are
  defined, in that order. The country never changes the result, and a record with no
  label and none of the four fields gives the empty string.
\<close>

theorem formatAddress_spec:
  "(\<forall>l. label a = Some l \<and> l \<noteq> [] \<longrightarrow> formatAddress a = l)
   \<and> (label a = None \<or> label a = Some [] \<longrightarrow>
        formatAddress a = join '', '' (defined_fields a))
   \<and> formatAddress (a\<lparr>country := c\<rparr>) = formatAddress a
   \<and> (label a = None \<and> street a = None \<and> addressNumber a = None
        \<and> postalCode a = None \<and> municipality a = None \<longrightarrow> formatAddress a = [])"
proof -
  have 1: "\<forall>l. label a = Some l \<and> l \<noteq> [] \<longrightarrow> formatAddress a = l"
    by (simp add: formatAddress_def truthy_field_def)
  have 2: "label a = None \<or> label a = Some [] \<longrightarrow>
      formatAddress a = join '', '' (defined_fields a)"
    by (auto simp: truthy_field_def intro: formatAddress_fields)
  have 3: "formatAddress (a\<lparr>country := c\<rparr>) = formatAddress a"
    by (simp add: formatAddress_def)
  have 4: "label a = None \<and> street a = None \<and> addressNumber a = None
        \<and> postalCode a = None \<and> municipality a = None \<longrightarrow> formatAddress a = []"
    by (simp add: formatAddress_def truthy_field_def push_defined_def)
  from 1 2 3 4 show ?thesis by blast
qed

theorem formatAddress_spec_witness:
  "formatAddress \<lparr>label = Some ''1 Main St, Springfield'', street = Some ''Main St'',
      addressNumber = Some ''1'', postalCode = None, municipality = Some ''Springfield'',
      country = Some ''USA''\<rparr> = ''1 Main St, Springfield''
   \<and> formatAddress \<lparr>label = None, street = Some ''Main St'',
      addressNumber = Some ''1'', postalCode = None, municipality = Some ''Springfield'',
      country = Some ''USA''\<rparr> = ''Main St, 1, Springfield''
   \<and> formatAddress \<lparr>label = None, street = None, addressNumber = None,
      postalCode = None, municipality = None, country = Some ''USA''\<rparr> = ''''"
  using
    formatAddress_spec [of "\<lparr>label = Some ''1 Main St, Springfield'', street = Some ''Main St'',
      addressNumber = Some ''1'', postalCode = None, municipality = Some ''Springfield'',
      country = Some ''USA''\<rparr>" None]
    formatAddress_spec [of "\<lparr>label = None, street = Some ''Main St'',
      addressNumber = Some ''1'', postalCode = None, municipality = Some ''Springfield'',
      country = Some ''USA''\<rparr>" None]
    formatAddress_spec [of "\<lparr>label = None, street = None, addressNumber = None,
      postalCode = None, municipality = None, country = Some ''USA''\<rparr>" None]
  by (simp add: defined_fields_def List.map_filter_def)

end
